theory Spec2Isabelle
  imports Main
begin

section \<open>Python values used by buildutil/linux.py\<close>

text \<open>
  The two attributes of the Linux build environment, the values of the argument
  dictionary and the elements of an argument vector are Python strings or \<open>None\<close>
  (what \<open>os.getenv\<close>, \<open>find_executable\<close> and an argparse string option produce).
  \<open>None\<close> is Python's \<open>None\<close>, \<open>Some s\<close> the string \<open>s\<close>.
\<close>

type_synonym pystr = "string option"

text \<open>Truth value of a string or \<open>None\<close>: \<open>None\<close> and the empty string are false.\<close>

fun truthy :: "pystr \<Rightarrow> bool" where
  "truthy None = False"
| "truthy (Some s) = (s \<noteq> [])"

text \<open>Python's \<open>a or b\<close>: \<open>a\<close> when it is true, otherwise \<open>b\<close>.\<close>

definition py_or :: "pystr \<Rightarrow> pystr \<Rightarrow> pystr" where
  "py_or a b = (if truthy a then a else b)"

text \<open>How a launched command ended: it could not be started, or it exited with a status.\<close>

datatype proc_status = LaunchFailed | Exited int

datatype error =
    ToolPathError string pystr
  | SubCommandError "pystr list" proc_status
  | KeyError string
  | TypeError
  | ValueError string
  | ArgumentError string

section \<open>The standard library's shlex.split\<close>

text \<open>
  \<open>shlex.split(s, posix=p)\<close> builds a lexer over \<open>s\<close> with \<open>whitespace_split\<close> set and
  no comment characters (and no punctuation characters), and collects its tokens.
  The lexer's \<open>state\<close> attribute is \<open>None\<close> (past the end), the blank \<open>' '\<close>, the
  letter \<open>'a'\<close> (inside a word), an opening quote character, or the escape character.
\<close>

datatype lex_state = St_None | St_Space | St_Word | St_Quote char | St_Escape

definition whitespace :: string where
  "whitespace = [CHR '' '', CHR 0x09, CHR 0x0D, CHR 0x0A]"

definition quotes :: string where
  "quotes = [CHR 0x27, CHR 0x22]"

definition escape :: string where
  "escape = [CHR 0x5C]"

definition escapedquotes :: string where
  "escapedquotes = [CHR 0x22]"

definition wordchars :: "bool \<Rightarrow> string" where
  "wordchars posix =
     ''abcdfeghijklmnopqrstuvwxyzABCDEFGHIJKLMNOPQRSTUVWXYZ0123456789_'' @
     (if posix then
        [CHR 0xDF, CHR 0xE0, CHR 0xE1, CHR 0xE2, CHR 0xE3, CHR 0xE4, CHR 0xE5, CHR 0xE6,
         CHR 0xE7, CHR 0xE8, CHR 0xE9, CHR 0xEA, CHR 0xEB, CHR 0xEC, CHR 0xED, CHR 0xEE,
         CHR 0xEF, CHR 0xF0, CHR 0xF1, CHR 0xF2, CHR 0xF3, CHR 0xF4, CHR 0xF5, CHR 0xF6,
         CHR 0xF8, CHR 0xF9, CHR 0xFA, CHR 0xFB, CHR 0xFC, CHR 0xFD, CHR 0xFE, CHR 0xFF,
         CHR 0xC0, CHR 0xC1, CHR 0xC2, CHR 0xC3, CHR 0xC4, CHR 0xC5, CHR 0xC6, CHR 0xC7,
         CHR 0xC8, CHR 0xC9, CHR 0xCA, CHR 0xCB, CHR 0xCC, CHR 0xCD, CHR 0xCE, CHR 0xCF,
         CHR 0xD0, CHR 0xD1, CHR 0xD2, CHR 0xD3, CHR 0xD4, CHR 0xD5, CHR 0xD6, CHR 0xD8,
         CHR 0xD9, CHR 0xDA, CHR 0xDB, CHR 0xDC, CHR 0xDD, CHR 0xDE]
      else [])"

text \<open>
  The loop of \<open>read_token\<close>. Each round reads one character (nothing at the end of
  the input) and dispatches on the lexer state. The arguments are the \<open>posix\<close> flag,
  \<open>self.state\<close>, \<open>self.token\<close>, the locals \<open>quoted\<close> and \<open>escapedstate\<close>, and the
  unread input; the result, at \<open>break\<close>, is \<open>self.token\<close>, \<open>quoted\<close>, \<open>self.state\<close>
  and the input left. The branches for comment and punctuation characters are absent:
  both character sets are empty under \<open>split\<close>. In a word, the last test of the
  source (a word character, a quote, or \<open>whitespace_split\<close> with a character that is
  no punctuation) always holds under \<open>split\<close>, so its branch is the final \<open>else\<close>.
\<close>

fun read_token_loop ::
  "bool \<Rightarrow> lex_state \<Rightarrow> string \<Rightarrow> bool \<Rightarrow> lex_state \<Rightarrow> string
     \<Rightarrow> error + (string \<times> bool \<times> lex_state \<times> string)" where
  "read_token_loop posix St_None tok quoted esc [] = Inr ([], quoted, St_None, [])"
| "read_token_loop posix St_None tok quoted esc (c # cs) = Inr ([], quoted, St_None, cs)"
| "read_token_loop posix St_Space tok quoted esc [] = Inr (tok, quoted, St_None, [])"
| "read_token_loop posix St_Space tok quoted esc (c # cs) =
     (if c \<in> set whitespace then
        (if tok \<noteq> [] \<or> (posix \<and> quoted) then Inr (tok, quoted, St_Space, cs)
         else read_token_loop posix St_Space tok quoted esc cs)
      else if posix \<and> c \<in> set escape then
        read_token_loop posix St_Escape tok quoted St_Word cs
      else if c \<in> set (wordchars posix) then
        read_token_loop posix St_Word [c] quoted esc cs
      else if c \<in> set quotes then
        read_token_loop posix (St_Quote c) (if \<not> posix then [c] else tok) quoted esc cs
      else
        read_token_loop posix St_Word [c] quoted esc cs)"
| "read_token_loop posix (St_Quote q) tok quoted esc [] =
     Inl (ValueError ''No closing quotation'')"
| "read_token_loop posix (St_Quote q) tok quoted esc (c # cs) =
     (if c = q then
        (if \<not> posix then Inr (tok @ [c], True, St_Space, cs)
         else read_token_loop posix St_Word tok True esc cs)
      else if posix \<and> c \<in> set escape \<and> q \<in> set escapedquotes then
        read_token_loop posix St_Escape tok True (St_Quote q) cs
      else
        read_token_loop posix (St_Quote q) (tok @ [c]) True esc cs)"
| "read_token_loop posix St_Escape tok quoted esc [] =
     Inl (ValueError ''No escaped character'')"
| "read_token_loop posix St_Escape tok quoted esc (c # cs) =
     (let tok1 = (case esc of
                    St_Quote q \<Rightarrow> (if c \<noteq> CHR 0x5C \<and> c \<noteq> q then tok @ [CHR 0x5C] else tok)
                  | _ \<Rightarrow> tok)
      in read_token_loop posix esc (tok1 @ [c]) quoted esc cs)"
| "read_token_loop posix St_Word tok quoted esc [] = Inr (tok, quoted, St_None, [])"
| "read_token_loop posix St_Word tok quoted esc (c # cs) =
     (if c \<in> set whitespace then
        (if tok \<noteq> [] \<or> (posix \<and> quoted) then Inr (tok, quoted, St_Space, cs)
         else read_token_loop posix St_Space tok quoted esc cs)
      else if posix \<and> c \<in> set quotes then
        read_token_loop posix (St_Quote c) tok quoted esc cs
      else if posix \<and> c \<in> set escape then
        read_token_loop posix St_Escape tok quoted St_Word cs
      else
        read_token_loop posix St_Word (tok @ [c]) quoted esc cs)"

text \<open>
  \<open>read_token\<close>: run the loop from an empty token, then turn an empty unquoted
  token into \<open>None\<close> in POSIX mode. The result is the token, the lexer state and
  the input left.
\<close>

definition read_token :: "bool \<Rightarrow> lex_state \<Rightarrow> string \<Rightarrow> error + (pystr \<times> lex_state \<times> string)" where
  "read_token posix st cs =
     (case read_token_loop posix st [] False St_Space cs of
        Inl e \<Rightarrow> Inl e
      | Inr (tok, quoted, st', rest) \<Rightarrow>
          Inr (if posix \<and> \<not> quoted \<and> tok = [] then None else Some tok, st', rest))"

text \<open>The end-of-input token: \<open>None\<close> in POSIX mode, the empty string otherwise.\<close>

definition eof :: "bool \<Rightarrow> pystr" where
  "eof posix = (if posix then None else Some [])"

text \<open>
  Iterating the lexer (\<open>list(lex)\<close>): \<open>get_token\<close> is \<open>read_token\<close> here (there is
  no pushback, no source inclusion and no file stack), and \<open>__next__\<close> stops at the
  end-of-input token. The arguments are the \<open>posix\<close> flag, the lexer state and the
  unread input.
\<close>

function tokens :: "bool \<Rightarrow> lex_state \<Rightarrow> string \<Rightarrow> error + pystr list" where
  "tokens posix st cs =
     (case read_token posix st cs of
        Inl e \<Rightarrow> Inl e
      | Inr (tok, st', rest) \<Rightarrow>
          (if tok = eof posix then Inr []
           else (case tokens posix st' rest of
                   Inl e \<Rightarrow> Inl e
                 | Inr ts \<Rightarrow> Inr (tok # ts))))"
  by pat_completeness auto
termination
proof (relation "measure (\<lambda>(posix, st, cs). length cs)")
  show "wf (measure (\<lambda>(posix, st, cs). length cs))"
    by simp
next
  fix posix :: bool and st st' :: lex_state and cs rest :: string
    and x :: "pystr \<times> lex_state \<times> string" and tok :: pystr and y :: "lex_state \<times> string"
  assume rd: "read_token posix st cs = Inr x" and x: "(tok, y) = x" and y: "(st', rest) = y"
    and ne: "tok \<noteq> eof posix"
  have loop_rest: "length r \<le> length i - 1"
    if "read_token_loop p s t q e i = Inr (t', q', s', r)" for p s t q e i t' q' s' r
    using that
  proof (induction p s t q e i rule: read_token_loop.induct)
    case (4 posix tok quoted esc c cs)
    then show ?case by (auto split: if_splits)
  next
    case (6 posix q tok quoted esc c cs)
    then show ?case by (auto split: if_splits)
  next
    case (8 posix tok quoted esc c cs)
    then show ?case by (auto simp: Let_def split: if_splits lex_state.splits)
  next
    case (10 posix tok quoted esc c cs)
    then show ?case by (auto split: if_splits)
  qed auto
  have loop_eof: "t' = [] \<and> \<not> q'"
    if "read_token_loop p s [] False e [] = Inr (t', q', s', r)" for p s e t' q' s' r
    using that by (cases s) auto
  from rd x y have rd': "read_token posix st cs = Inr (tok, st', rest)"
    by simp
  have "length rest < length cs"
  proof (cases cs)
    case Nil
    with rd' ne show ?thesis
      by (auto simp: read_token_def eof_def split: sum.splits prod.splits if_splits
               dest!: loop_eof)
  next
    case (Cons c cs')
    with rd' show ?thesis
      by (auto simp: read_token_def split: sum.splits prod.splits dest!: loop_rest)
  qed
  then show "((posix, st', rest), (posix, st, cs)) \<in> measure (\<lambda>(posix, st, cs). length cs)"
    by simp
qed

declare tokens.simps [simp del]

text \<open>\<open>shlex.split(s, posix=p)\<close> for a string \<open>s\<close>: the tokens of a fresh lexer.\<close>

definition shlex_split :: "string \<Rightarrow> bool \<Rightarrow> error + pystr list" where
  "shlex_split s posix = tokens posix St_Space s"

section \<open>The operating system, as seen from this module\<close>

text \<open>
  What the module reads from and does to its surroundings: the environment variables
  (\<open>os.getenv\<close>), the answer of \<open>distutils.spawn.find_executable\<close> (the first
  executable of that name on the search path, or \<open>None\<close>), which paths hold a binary
  that can be run, and how a command started with a given argument vector and working
  directory ends.
\<close>

record os_env =
  environ :: "string \<rightharpoonup> string"
  find_executable :: "string \<Rightarrow> pystr"
  binary_at :: "string \<Rightarrow> bool"
  subprocess :: "pystr list \<Rightarrow> string \<Rightarrow> proc_status"

definition getenv :: "os_env \<Rightarrow> string \<Rightarrow> pystr" where
  "getenv os name = environ os name"

text \<open>The commands launched so far, each with its argument vector and working directory.\<close>

type_synonym spawned = "(pystr list \<times> string) list"

section \<open>The build environment\<close>

abbreviation CMAKE_PATH_ENV_VAR :: string where
  "CMAKE_PATH_ENV_VAR \<equiv> ''CMAKE_PATH''"

abbreviation CMAKE_FLAGS_ENV_VAR :: string where
  "CMAKE_FLAGS_ENV_VAR \<equiv> ''CMAKE_FLAGS''"

abbreviation CMAKE_PATH :: string where
  "CMAKE_PATH \<equiv> ''cmake_path''"

abbreviation CMAKE_FLAGS :: string where
  "CMAKE_FLAGS \<equiv> ''cmake_flags''"

text \<open>
  The part of the base class \<open>common.BuildEnvironment\<close> that this module reads: the
  project directory and the POSIX flag (\<open>_posix\<close>). The Linux class extends it by
  the two cmake attributes.
\<close>

record common_BuildEnvironment =
  project_directory :: string
  posix :: bool

record BuildEnvironment = common_BuildEnvironment +
  cmake_path :: pystr
  cmake_flags :: pystr

subsection \<open>Construction\<close>

text \<open>
  The \<open>arguments\<close> of the constructor, by what the constructor can observe of them:
  \<^item> \<open>Dict d\<close>: a value whose type is exactly \<open>dict\<close>, with the entries \<open>d\<close>;
  \<^item> \<open>Namespace a\<close>: an object that is no mapping and has the attribute dictionary
    \<open>a\<close> (such as an argparse namespace);
  \<^item> \<open>Mapping d a\<close>: a key-to-value mapping of another type than \<open>dict\<close> (an
    \<open>OrderedDict\<close>, an instance of a subclass of \<open>dict\<close>, a mapping proxy) with the
    entries \<open>d\<close>; \<open>a\<close> is its attribute dictionary, if it has one;
  \<^item> \<open>Slots a\<close>: an object whose named attributes \<open>a\<close> are not held in an attribute
    dictionary (a class with \<open>__slots__\<close>);
  \<^item> \<open>NoDict\<close>: any other value without an attribute dictionary.

  The test \<open>type(arguments) is dict\<close> holds for the first form only.
\<close>

type_synonym dict = "string \<rightharpoonup> pystr"

datatype arguments =
    Dict dict
  | Namespace dict
  | Mapping dict "dict option"
  | Slots dict
  | NoDict

text \<open>\<open>vars(x)\<close>: the attribute dictionary of \<open>x\<close>; a \<open>TypeError\<close> when \<open>x\<close> has none.\<close>

fun vars :: "arguments \<Rightarrow> error + dict" where
  "vars (Namespace a) = Inr a"
| "vars (Dict d) = Inl TypeError"
| "vars (Mapping d (Some a)) = Inr a"
| "vars (Mapping d None) = Inl TypeError"
| "vars (Slots a) = Inl TypeError"
| "vars NoDict = Inl TypeError"

text \<open>\<open>d[k]\<close>: the value at \<open>k\<close>, or a \<open>KeyError\<close>.\<close>

definition getitem :: "dict \<Rightarrow> string \<Rightarrow> error + pystr" where
  "getitem d k = (case d k of None \<Rightarrow> Inl (KeyError k) | Some v \<Rightarrow> Inr v)"

text \<open>
  \<open>BuildEnvironment.__init__\<close>. The initializer of the base class is not part of
  this module: it is the parameter \<open>common_init\<close>, which fails or yields the base
  attributes.
\<close>

definition init ::
  "(arguments \<Rightarrow> error + common_BuildEnvironment) \<Rightarrow> arguments \<Rightarrow> error + BuildEnvironment" where
  "init common_init arguments =
     (case common_init arguments of
        Inl e \<Rightarrow> Inl e
      | Inr base \<Rightarrow>
          (case (case arguments of Dict d \<Rightarrow> Inr d | _ \<Rightarrow> vars arguments) of
             Inl e \<Rightarrow> Inl e
           | Inr args \<Rightarrow>
               (case getitem args CMAKE_PATH of
                  Inl e \<Rightarrow> Inl e
                | Inr p \<Rightarrow>
                    (case getitem args CMAKE_FLAGS of
                       Inl e \<Rightarrow> Inl e
                     | Inr f \<Rightarrow>
                         Inr (common_BuildEnvironment.extend base
                                (BuildEnvironment.fields p f))))))"

subsection \<open>Defaults\<close>

text \<open>
  \<open>BuildEnvironment.build_defaults\<close>. The dictionary returned by the base class's
  \<open>build_defaults\<close> is the parameter \<open>common_defaults\<close>.
\<close>

definition build_defaults :: "os_env \<Rightarrow> dict \<Rightarrow> dict" where
  "build_defaults os common_defaults =
     (let args = common_defaults;
          args = args(CMAKE_PATH \<mapsto>
                   py_or (getenv os CMAKE_PATH_ENV_VAR) (find_executable os ''cmake''));
          args = args(CMAKE_FLAGS \<mapsto> getenv os CMAKE_FLAGS_ENV_VAR)
      in args)"

subsection \<open>Argument registration\<close>

text \<open>
  An argparse parser as the list of its registered options, in the order of
  registration. \<open>add_argument\<close> appends an option; with the default conflict handler it
  raises an \<open>ArgumentError\<close> when one of the option strings is already registered.
\<close>

record argument =
  option_strings :: "string list"
  help_text :: string
  dest :: string
  default_value :: pystr

type_synonym parser = "argument list"

definition add_argument ::
  "parser \<Rightarrow> string list \<Rightarrow> string \<Rightarrow> string \<Rightarrow> pystr \<Rightarrow> error + parser" where
  "add_argument parser flags hlp dst dflt =
     (case filter (\<lambda>f. list_ex (\<lambda>a. f \<in> set (option_strings a)) parser) flags of
        [] \<Rightarrow> Inr (parser @ [\<lparr>option_strings = flags, help_text = hlp, dest = dst,
                              default_value = dflt\<rparr>])
      | f # _ \<Rightarrow> Inl (ArgumentError f))"

text \<open>
  \<open>BuildEnvironment.add_arguments\<close>. The base class's \<open>add_arguments\<close> is the
  parameter \<open>common_add_arguments\<close>: it fails or yields the parser with the base
  options registered.
\<close>

definition add_arguments ::
  "os_env \<Rightarrow> dict \<Rightarrow> (parser \<Rightarrow> error + parser) \<Rightarrow> parser \<Rightarrow> error + parser" where
  "add_arguments os common_defaults common_add_arguments parser =
     (let defaults = build_defaults os common_defaults in
      case common_add_arguments parser of
        Inl e \<Rightarrow> Inl e
      | Inr parser1 \<Rightarrow>
          (case getitem defaults CMAKE_PATH of
             Inl e \<Rightarrow> Inl e
           | Inr d1 \<Rightarrow>
               (case add_argument parser1 [''-c'', ''--'' @ CMAKE_PATH]
                       ''Path to CMake binary'' CMAKE_PATH d1 of
                  Inl e \<Rightarrow> Inl e
                | Inr parser2 \<Rightarrow>
                    (case getitem defaults CMAKE_FLAGS of
                       Inl e \<Rightarrow> Inl e
                     | Inr d2 \<Rightarrow>
                         add_argument parser2 [''-F'', ''--'' @ CMAKE_FLAGS]
                           ''Flags to use to override CMake flags'' CMAKE_FLAGS d2))))"

subsection \<open>Running cmake\<close>

text \<open>
  Modelled from the spec: \<open>common.BuildEnvironment._check_binary\<close>, whose code is not
  in this module. The spec: validate that the path resolves to an existing, executable
  binary; a \<open>ToolPathError\<close> is raised when the configured path is empty, missing or
  not executable, without spawning a process.
\<close>

definition check_binary :: "os_env \<Rightarrow> string \<Rightarrow> pystr \<Rightarrow> error + unit" where
  "check_binary os name path =
     (case path of
        None \<Rightarrow> Inl (ToolPathError name path)
      | Some p \<Rightarrow>
          (if p = [] \<or> \<not> binary_at os p then Inl (ToolPathError name path) else Inr ()))"

text \<open>
  Modelled from the spec: \<open>common.BuildEnvironment.run_subprocess\<close>, whose code is not
  in this module. The spec: execute the argument vector as a subprocess with the given
  working directory and wait for completion; if the subprocess exits non-zero or fails
  to launch, fail with a \<open>SubCommandError\<close> carrying the exit status or cause;
  otherwise return normally. The launch is recorded; the environment object is left
  as it is.
\<close>

definition run_subprocess ::
  "os_env \<Rightarrow> BuildEnvironment \<Rightarrow> pystr list \<Rightarrow> string \<Rightarrow> spawned
     \<Rightarrow> (error + unit) \<times> BuildEnvironment \<times> spawned" where
  "run_subprocess os self argv cwd tr =
     (case subprocess os argv cwd of
        Exited n \<Rightarrow>
          (if n = 0 then (Inr (), self, tr @ [(argv, cwd)])
           else (Inl (SubCommandError argv (Exited n)), self, tr @ [(argv, cwd)]))
      | LaunchFailed \<Rightarrow> (Inl (SubCommandError argv LaunchFailed), self, tr @ [(argv, cwd)]))"

text \<open>
  \<open>BuildEnvironment.run_cmake\<close>. The result is what the call returns or raises, the
  environment object after the call, and the commands launched so far.
\<close>

definition run_cmake ::
  "os_env \<Rightarrow> BuildEnvironment \<Rightarrow> string \<Rightarrow> spawned
     \<Rightarrow> (error + unit) \<times> BuildEnvironment \<times> spawned" where
  "run_cmake os self gen tr =
     (case check_binary os ''cmake'' (cmake_path self) of
        Inl e \<Rightarrow> (Inl e, self, tr)
      | Inr _ \<Rightarrow>
          (let args = [cmake_path self, Some ''-G'', Some gen] in
           case (if truthy (cmake_flags self) then
                   (case cmake_flags self of
                      Some s \<Rightarrow>
                        (case shlex_split s (posix self) of
                           Inl e \<Rightarrow> Inl e
                         | Inr ts \<Rightarrow> Inr (args @ ts))
                    | None \<Rightarrow> Inr args)
                 else Inr args) of
             Inl e \<Rightarrow> (Inl e, self, tr)
           | Inr args \<Rightarrow>
               run_subprocess os self (args @ [Some (project_directory self)])
                 (project_directory self) tr))"

text \<open>The generator defaults to \<open>Unix Makefiles\<close>.\<close>

definition run_cmake_default ::
  "os_env \<Rightarrow> BuildEnvironment \<Rightarrow> spawned \<Rightarrow> (error + unit) \<times> BuildEnvironment \<times> spawned" where
  "run_cmake_default os self tr = run_cmake os self ''Unix Makefiles'' tr"

section \<open>Facts about the lexer and the helpers\<close>

lemma shlex_split_example:
  "shlex_split ''-DFOO=1 -DBAR=2'' b = Inr [Some ''-DFOO=1'', Some ''-DBAR=2'']"
  by (cases b) (simp_all add: shlex_split_def tokens.simps read_token_def eof_def
        whitespace_def quotes_def escape_def wordchars_def)

lemma run_cmake_checked:
  assumes "check_binary os ''cmake'' (cmake_path self) = Inr ()"
  shows "run_cmake os self gen tr =
     (if truthy (cmake_flags self) then
        (case shlex_split (the (cmake_flags self)) (posix self) of
           Inl e \<Rightarrow> (Inl e, self, tr)
         | Inr ts \<Rightarrow>
             run_subprocess os self
               ([cmake_path self, Some ''-G'', Some gen] @ ts @ [Some (project_directory self)])
               (project_directory self) tr)
      else
        run_subprocess os self
          [cmake_path self, Some ''-G'', Some gen, Some (project_directory self)]
          (project_directory self) tr)"
  using assms
  by (cases "cmake_flags self") (auto simp: run_cmake_def split: sum.splits)

lemma run_cmake_unchecked:
  assumes "check_binary os ''cmake'' (cmake_path self) = Inl e"
  shows "run_cmake os self gen tr = (Inl e, self, tr)"
  using assms by (simp add: run_cmake_def)

lemma run_subprocess_trace:
  "snd (run_subprocess os self argv cwd tr) = (self, tr @ [(argv, cwd)])"
  by (simp add: run_subprocess_def split: proc_status.splits)

lemma shlex_split_quoted_posix:
  "shlex_split [CHR ''-'', CHR ''D'', CHR ''X'', CHR ''='', CHR 0x27, CHR ''a'', CHR '' '',
                CHR ''b'', CHR 0x27] True
     = Inr [Some ''-DX=a b'']"
  by (simp add: shlex_split_def tokens.simps read_token_def eof_def whitespace_def quotes_def
        escape_def escapedquotes_def wordchars_def)

lemma shlex_split_quoted_non_posix:
  "shlex_split [CHR ''-'', CHR ''D'', CHR ''X'', CHR ''='', CHR 0x27, CHR ''a'', CHR '' '',
                CHR ''b'', CHR 0x27] False
     = Inr [Some [CHR ''-'', CHR ''D'', CHR ''X'', CHR ''='', CHR 0x27, CHR ''a''],
            Some [CHR ''b'', CHR 0x27]]"
  by (simp add: shlex_split_def tokens.simps read_token_def eof_def whitespace_def quotes_def
        escape_def escapedquotes_def wordchars_def)








lemma init_no_attribute_dictionary:
  assumes "arguments = Mapping items None \<or> arguments = Slots a \<or> arguments = NoDict"
    and "common_init arguments = Inr base"
  shows "init common_init arguments = Inl TypeError"
  using assms by (auto simp: init_def)

lemma add_argument_fresh:
  assumes "\<forall>a \<in> set parser. \<forall>f \<in> set flags. f \<notin> set (option_strings a)"
  shows "add_argument parser flags hlp dst dflt
     = Inr (parser @ [\<lparr>option_strings = flags, help_text = hlp, dest = dst,
                       default_value = dflt\<rparr>])"
proof -
  from assms have "filter (\<lambda>f. list_ex (\<lambda>a. f \<in> set (option_strings a)) parser) flags = []"
    by (auto simp: filter_empty_conv list_ex_iff)
  then show ?thesis by (simp add: add_argument_def)
qed

section \<open>The command line of cmake\<close>

text \<open>
  C1. A run of \<open>run_cmake gen\<close> that returns normally has launched exactly one
  command: its argument vector is the cmake path, \<open>-G\<close> and the generator name,
  followed by the tokens of \<open>cmake_flags\<close> when that is set and not empty (none
  otherwise), followed by the project directory; its working directory is the project
  directory. For \<open>cmake_flags\<close> equal to \<open>-DFOO=1 -DBAR=2\<close> the tokens are \<open>-DFOO=1\<close>
  and \<open>-DBAR=2\<close>.
\<close>

theorem run_cmake_success_argv:
  assumes "run_cmake os self gen tr = (Inr (), self', tr')"
  shows "\<exists>ts. tr' = tr @ [([cmake_path self, Some ''-G'', Some gen] @ ts
                              @ [Some (project_directory self)], project_directory self)]
      \<and> (case cmake_flags self of
            None \<Rightarrow> ts = []
          | Some s \<Rightarrow> if s = [] then ts = [] else shlex_split s (posix self) = Inr ts)
      \<and> (cmake_flags self = Some ''-DFOO=1 -DBAR=2''
            \<longrightarrow> ts = [Some ''-DFOO=1'', Some ''-DBAR=2''])"
proof -
  from assms obtain u where chk: "check_binary os ''cmake'' (cmake_path self) = Inr u"
    by (auto simp: run_cmake_def split: sum.splits)
  then have chk': "check_binary os ''cmake'' (cmake_path self) = Inr ()" by simp
  show ?thesis
  proof (cases "truthy (cmake_flags self)")
    case False
    with assms run_cmake_checked [OF chk', of gen tr]
    have "snd (run_subprocess os self
          [cmake_path self, Some ''-G'', Some gen, Some (project_directory self)]
          (project_directory self) tr) = (self', tr')" by simp
    then have "tr' = tr @ [([cmake_path self, Some ''-G'', Some gen] @ []
                              @ [Some (project_directory self)], project_directory self)]"
      by (auto simp: run_subprocess_trace)
    moreover from False have "case cmake_flags self of
            None \<Rightarrow> ([]::pystr list) = []
          | Some s \<Rightarrow> if s = [] then ([]::pystr list) = [] else shlex_split s (posix self) = Inr []"
      by (cases "cmake_flags self") auto
    moreover from False have "cmake_flags self \<noteq> Some ''-DFOO=1 -DBAR=2''" by auto
    ultimately show ?thesis by blast
  next
    case True
    then obtain s where s: "cmake_flags self = Some s" "s \<noteq> []"
      by (cases "cmake_flags self") auto
    with assms run_cmake_checked [OF chk', of gen tr] True
    obtain ts where ts: "shlex_split s (posix self) = Inr ts"
      by (cases "shlex_split s (posix self)") auto
    with assms run_cmake_checked [OF chk', of gen tr] True s
    have "snd (run_subprocess os self
          ([cmake_path self, Some ''-G'', Some gen] @ ts @ [Some (project_directory self)])
          (project_directory self) tr) = (self', tr')" by simp
    then have "tr' = tr @ [([cmake_path self, Some ''-G'', Some gen] @ ts
                              @ [Some (project_directory self)], project_directory self)]"
      by (auto simp: run_subprocess_trace)
    moreover from s ts have "case cmake_flags self of
            None \<Rightarrow> ts = []
          | Some s \<Rightarrow> if s = [] then ts = [] else shlex_split s (posix self) = Inr ts"
      by simp
    moreover from s ts have "cmake_flags self = Some ''-DFOO=1 -DBAR=2''
            \<longrightarrow> ts = [Some ''-DFOO=1'', Some ''-DBAR=2'']"
      by (auto simp: shlex_split_example)
    ultimately show ?thesis by blast
  qed
qed

theorem run_cmake_success_argv_witness:
  "run_cmake
     \<lparr>environ = Map.empty, find_executable = (\<lambda>_. None),
      binary_at = (\<lambda>p. p = ''/usr/bin/cmake''), subprocess = (\<lambda>_ _. Exited 0)\<rparr>
     \<lparr>project_directory = ''/src/proj'', posix = True,
      cmake_path = Some ''/usr/bin/cmake'', cmake_flags = Some ''-DFOO=1 -DBAR=2''\<rparr>
     ''Ninja'' []
   = (Inr (),
      \<lparr>project_directory = ''/src/proj'', posix = True,
       cmake_path = Some ''/usr/bin/cmake'', cmake_flags = Some ''-DFOO=1 -DBAR=2''\<rparr>,
      [([Some ''/usr/bin/cmake'', Some ''-G'', Some ''Ninja'', Some ''-DFOO=1'',
         Some ''-DBAR=2'', Some ''/src/proj''], ''/src/proj'')])
   \<and> (\<exists>ts. [([Some ''/usr/bin/cmake'', Some ''-G'', Some ''Ninja'', Some ''-DFOO=1'',
                Some ''-DBAR=2'', Some ''/src/proj''], ''/src/proj'')]
             = [] @ [([Some ''/usr/bin/cmake'', Some ''-G'', Some ''Ninja''] @ ts
                       @ [Some ''/src/proj''], ''/src/proj'')]
           \<and> ts = [Some ''-DFOO=1'', Some ''-DBAR=2''])"
  (is "?run \<and> ?argv")
proof -
  have run: ?run
    by (simp add: run_cmake_def check_binary_def run_subprocess_def shlex_split_example)
  from run_cmake_success_argv [OF run] have ?argv
    by auto
  with run show ?thesis by blast
qed

section \<open>Failures of run_cmake\<close>

text \<open>
  C2. When \<open>cmake_path\<close> is unset (\<open>None\<close>) or empty at the call, \<open>run_cmake\<close>
  raises \<open>ToolPathError\<close> and launches nothing: the list of launched commands and
  the environment object are as they were.
\<close>

theorem run_cmake_no_cmake_path:
  assumes "cmake_path self = None \<or> cmake_path self = Some []"
  shows "run_cmake os self gen tr = (Inl (ToolPathError ''cmake'' (cmake_path self)), self, tr)"
proof -
  from assms have "check_binary os ''cmake'' (cmake_path self)
      = Inl (ToolPathError ''cmake'' (cmake_path self))"
    by (auto simp: check_binary_def)
  then show ?thesis by (rule run_cmake_unchecked)
qed

theorem run_cmake_no_cmake_path_witness:
  "(cmake_path \<lparr>project_directory = ''/src/proj'', posix = True,
                 cmake_path = Some [], cmake_flags = None\<rparr> = None
    \<or> cmake_path \<lparr>project_directory = ''/src/proj'', posix = True,
                 cmake_path = Some [], cmake_flags = None\<rparr> = Some [])
   \<and> run_cmake
        \<lparr>environ = Map.empty, find_executable = (\<lambda>_. None),
         binary_at = (\<lambda>_. True), subprocess = (\<lambda>_ _. Exited 0)\<rparr>
        \<lparr>project_directory = ''/src/proj'', posix = True,
         cmake_path = Some [], cmake_flags = None\<rparr>
        ''Unix Makefiles'' []
      = (Inl (ToolPathError ''cmake'' (Some [])),
         \<lparr>project_directory = ''/src/proj'', posix = True,
          cmake_path = Some [], cmake_flags = None\<rparr>, [])"
  using run_cmake_no_cmake_path
    [of "\<lparr>project_directory = ''/src/proj'', posix = True,
          cmake_path = Some [], cmake_flags = None\<rparr>"
        "\<lparr>environ = Map.empty, find_executable = (\<lambda>_. None),
          binary_at = (\<lambda>_. True), subprocess = (\<lambda>_ _. Exited 0)\<rparr>"
        "''Unix Makefiles''" "[]"]
  by simp



section \<open>Defaults\<close>

text \<open>
  C4. In the dictionary returned by \<open>build_defaults\<close> the key \<open>cmake_path\<close> holds
  the value of the environment variable \<open>CMAKE_PATH\<close> when that is set and not empty,
  as given and whatever the file system holds, and otherwise what \<open>find_executable\<close>
  finds for \<open>cmake\<close> (\<open>None\<close> when it finds nothing); the key \<open>cmake_flags\<close> holds
  the value of \<open>CMAKE_FLAGS\<close> when set and \<open>None\<close> otherwise.
\<close>

theorem build_defaults_cmake:
  "build_defaults os common_defaults CMAKE_PATH
     = Some (case environ os CMAKE_PATH_ENV_VAR of
               None \<Rightarrow> find_executable os ''cmake''
             | Some v \<Rightarrow> if v = [] then find_executable os ''cmake'' else Some v)
   \<and> build_defaults os common_defaults CMAKE_FLAGS = Some (environ os CMAKE_FLAGS_ENV_VAR)"
  by (simp add: build_defaults_def py_or_def getenv_def split: option.splits)

theorem build_defaults_cmake_witness:
  "build_defaults
     \<lparr>environ = [CMAKE_PATH_ENV_VAR \<mapsto> ''/nonexistent/cmake''],
      find_executable = (\<lambda>_. None), binary_at = (\<lambda>_. False),
      subprocess = (\<lambda>_ _. LaunchFailed)\<rparr>
     Map.empty CMAKE_PATH = Some (Some ''/nonexistent/cmake'')
   \<and> build_defaults
     \<lparr>environ = [CMAKE_PATH_ENV_VAR \<mapsto> ''/nonexistent/cmake''],
      find_executable = (\<lambda>_. None), binary_at = (\<lambda>_. False),
      subprocess = (\<lambda>_ _. LaunchFailed)\<rparr>
     Map.empty CMAKE_FLAGS = Some None"
  using build_defaults_cmake
    [of "\<lparr>environ = [CMAKE_PATH_ENV_VAR \<mapsto> ''/nonexistent/cmake''],
           find_executable = (\<lambda>_. None), binary_at = (\<lambda>_. False),
           subprocess = (\<lambda>_ _. LaunchFailed)\<rparr>" Map.empty]
  by simp

section \<open>Flags on the command line\<close>

text \<open>
  C5. When \<open>cmake_flags\<close> is unset or empty (and the binary check passes),
  \<open>run_cmake gen\<close> launches the command with exactly the four arguments cmake path,
  \<open>-G\<close>, generator and project directory.
\<close>

theorem run_cmake_no_flags:
  assumes "cmake_flags self = None \<or> cmake_flags self = Some []"
    and "check_binary os ''cmake'' (cmake_path self) = Inr ()"
  shows "snd (snd (run_cmake os self gen tr))
     = tr @ [([cmake_path self, Some ''-G'', Some gen, Some (project_directory self)],
              project_directory self)]"
proof -
  from assms(1) have "\<not> truthy (cmake_flags self)" by auto
  with run_cmake_checked [OF assms(2), of gen tr] show ?thesis
    by (simp add: run_subprocess_trace)
qed

theorem run_cmake_no_flags_witness:
  "(cmake_flags
      \<lparr>project_directory = ''/src/proj'', posix = True,
       cmake_path = Some ''/usr/bin/cmake'', cmake_flags = Some []\<rparr> = None
    \<or> cmake_flags
      \<lparr>project_directory = ''/src/proj'', posix = True,
       cmake_path = Some ''/usr/bin/cmake'', cmake_flags = Some []\<rparr> = Some [])
   \<and> check_binary
      \<lparr>environ = Map.empty, find_executable = (\<lambda>_. None),
       binary_at = (\<lambda>p. p = ''/usr/bin/cmake''), subprocess = (\<lambda>_ _. Exited 0)\<rparr> ''cmake''
      (cmake_path
        \<lparr>project_directory = ''/src/proj'', posix = True,
       cmake_path = Some ''/usr/bin/cmake'', cmake_flags = Some []\<rparr>) = Inr ()
   \<and> snd (snd (run_cmake
      \<lparr>environ = Map.empty, find_executable = (\<lambda>_. None),
       binary_at = (\<lambda>p. p = ''/usr/bin/cmake''), subprocess = (\<lambda>_ _. Exited 0)\<rparr>
      \<lparr>project_directory = ''/src/proj'', posix = True,
       cmake_path = Some ''/usr/bin/cmake'', cmake_flags = Some []\<rparr>
      ''Unix Makefiles'' []))
     = [([Some ''/usr/bin/cmake'', Some ''-G'', Some ''Unix Makefiles'', Some ''/src/proj''], ''/src/proj'')]"
  (is "?flags \<and> ?chk \<and> ?argv")
proof -
  have flags: ?flags by simp
  have chk: ?chk by (simp add: check_binary_def)
  from run_cmake_no_flags [OF flags chk, of "''Unix Makefiles''" "[]"] have ?argv by simp
  with flags chk show ?thesis by blast
qed

text \<open>
  C6. When \<open>cmake_flags\<close> is set and not empty (and the binary check passes),
  \<open>run_cmake\<close> splits it with \<open>shlex.split\<close> under the environment's POSIX flag
  and puts the tokens, in order, after the generator argument; when the lexer rejects
  the string, its error is raised and nothing is launched. The instance after the
  theorem shows the two sets of rules on one string: POSIX splitting removes the quotes and keeps the
  quoted blank, non-POSIX splitting does neither.
\<close>

theorem run_cmake_flag_tokens:
  assumes "cmake_flags self = Some s" and "s \<noteq> []"
    and "check_binary os ''cmake'' (cmake_path self) = Inr ()"
  shows "case shlex_split s (posix self) of
           Inr ts \<Rightarrow>
             snd (snd (run_cmake os self gen tr))
               = tr @ [([cmake_path self, Some ''-G'', Some gen] @ ts
                         @ [Some (project_directory self)], project_directory self)]
         | Inl e \<Rightarrow> run_cmake os self gen tr = (Inl e, self, tr)"
proof -
  from assms(1,2) have "truthy (cmake_flags self)" by simp
  with run_cmake_checked [OF assms(3), of gen tr] assms(1) show ?thesis
    by (simp add: run_subprocess_trace split: sum.splits)
qed

theorem run_cmake_flag_tokens_witness:
  "snd (snd (run_cmake
      \<lparr>environ = Map.empty, find_executable = (\<lambda>_. None),
       binary_at = (\<lambda>p. p = ''/usr/bin/cmake''), subprocess = (\<lambda>_ _. Exited 0)\<rparr>
      \<lparr>project_directory = ''/src/proj'', posix = True,
       cmake_path = Some ''/usr/bin/cmake'', cmake_flags = Some
        [CHR ''-'', CHR ''D'', CHR ''X'', CHR ''='', CHR 0x27, CHR ''a'', CHR '' '', CHR ''b'', CHR 0x27]\<rparr>
      ''Unix Makefiles'' []))
     = [([Some ''/usr/bin/cmake'', Some ''-G'', Some ''Unix Makefiles'', Some ''-DX=a b'',
          Some ''/src/proj''], ''/src/proj'')]
   \<and> snd (snd (run_cmake
      \<lparr>environ = Map.empty, find_executable = (\<lambda>_. None),
       binary_at = (\<lambda>p. p = ''/usr/bin/cmake''), subprocess = (\<lambda>_ _. Exited 0)\<rparr>
      \<lparr>project_directory = ''/src/proj'', posix = False,
       cmake_path = Some ''/usr/bin/cmake'', cmake_flags = Some
        [CHR ''-'', CHR ''D'', CHR ''X'', CHR ''='', CHR 0x27, CHR ''a'', CHR '' '', CHR ''b'', CHR 0x27]\<rparr>
      ''Unix Makefiles'' []))
     = [([Some ''/usr/bin/cmake'', Some ''-G'', Some ''Unix Makefiles'',
          Some [CHR ''-'', CHR ''D'', CHR ''X'', CHR ''='', CHR 0x27, CHR ''a''],
          Some [CHR ''b'', CHR 0x27], Some ''/src/proj''], ''/src/proj'')]"
  (is "?posix \<and> ?non_posix")
proof -
  have ne: "[CHR ''-'', CHR ''D'', CHR ''X'', CHR ''='', CHR 0x27, CHR ''a'', CHR '' '', CHR ''b'', CHR 0x27] \<noteq> []"
    by simp
  have chk: "check_binary
      \<lparr>environ = Map.empty, find_executable = (\<lambda>_. None),
       binary_at = (\<lambda>p. p = ''/usr/bin/cmake''), subprocess = (\<lambda>_ _. Exited 0)\<rparr> ''cmake''
      (cmake_path
        \<lparr>project_directory = ''/src/proj'', posix = True,
       cmake_path = Some ''/usr/bin/cmake'', cmake_flags = Some
        [CHR ''-'', CHR ''D'', CHR ''X'', CHR ''='', CHR 0x27, CHR ''a'', CHR '' '', CHR ''b'', CHR 0x27]\<rparr>) = Inr ()"
    by (simp add: check_binary_def)
  have chk': "check_binary
      \<lparr>environ = Map.empty, find_executable = (\<lambda>_. None),
       binary_at = (\<lambda>p. p = ''/usr/bin/cmake''), subprocess = (\<lambda>_ _. Exited 0)\<rparr> ''cmake''
      (cmake_path
        \<lparr>project_directory = ''/src/proj'', posix = False,
       cmake_path = Some ''/usr/bin/cmake'', cmake_flags = Some
        [CHR ''-'', CHR ''D'', CHR ''X'', CHR ''='', CHR 0x27, CHR ''a'', CHR '' '', CHR ''b'', CHR 0x27]\<rparr>) = Inr ()"
    by (simp add: check_binary_def)
  have "?posix"
    using run_cmake_flag_tokens [OF _ ne chk, of "''Unix Makefiles''" "[]"]
    by (simp add: shlex_split_quoted_posix)
  moreover have "?non_posix"
    using run_cmake_flag_tokens [OF _ ne chk', of "''Unix Makefiles''" "[]"]
    by (simp add: shlex_split_quoted_non_posix)
  ultimately show ?thesis by blast
qed

section \<open>Construction\<close>




section \<open>Argument registration\<close>

text \<open>
  C8. \<open>add_arguments\<close> registers, after the options of the base class, exactly
  two options: \<open>-c\<close>/\<open>--cmake_path\<close> with destination \<open>cmake_path\<close> and
  \<open>-F\<close>/\<open>--cmake_flags\<close> with destination \<open>cmake_flags\<close>, each with the default
  that \<open>build_defaults\<close> gives for its key. (The base registration succeeds and has
  not taken one of the four option strings; otherwise argparse raises.)
\<close>

theorem add_arguments_registers:
  assumes "common_add_arguments parser = Inr parser1"
    and "\<forall>a \<in> set parser1. \<forall>f \<in> {''-c'', ''--cmake_path'', ''-F'', ''--cmake_flags''}.
           f \<notin> set (option_strings a)"
  shows "\<exists>d1 d2.
       build_defaults os common_defaults CMAKE_PATH = Some d1
     \<and> build_defaults os common_defaults CMAKE_FLAGS = Some d2
     \<and> add_arguments os common_defaults common_add_arguments parser
         = Inr (parser1 @
             [\<lparr>option_strings = [''-c'', ''--cmake_path''], help_text = ''Path to CMake binary'',
               dest = ''cmake_path'', default_value = d1\<rparr>,
              \<lparr>option_strings = [''-F'', ''--cmake_flags''],
               help_text = ''Flags to use to override CMake flags'',
               dest = ''cmake_flags'', default_value = d2\<rparr>])"
proof -
  let ?d1 = "py_or (getenv os CMAKE_PATH_ENV_VAR) (find_executable os ''cmake'')"
  let ?d2 = "getenv os CMAKE_FLAGS_ENV_VAR"
  let ?a1 = "\<lparr>option_strings = [''-c'', ''--cmake_path''], help_text = ''Path to CMake binary'',
               dest = ''cmake_path'', default_value = ?d1\<rparr>"
  have d1: "build_defaults os common_defaults CMAKE_PATH = Some ?d1"
    and d2: "build_defaults os common_defaults CMAKE_FLAGS = Some ?d2"
    by (simp_all add: build_defaults_def)
  from assms(2) have "\<forall>a \<in> set parser1. \<forall>f \<in> set [''-c'', ''--'' @ CMAKE_PATH].
      f \<notin> set (option_strings a)"
    by simp
  then have s1: "add_argument parser1 [''-c'', ''--'' @ CMAKE_PATH] ''Path to CMake binary''
      CMAKE_PATH ?d1 = Inr (parser1 @ [?a1])"
    by (simp add: add_argument_fresh del: set_simps append.simps)
  from assms(2) have "\<forall>a \<in> set (parser1 @ [?a1]). \<forall>f \<in> set [''-F'', ''--'' @ CMAKE_FLAGS].
      f \<notin> set (option_strings a)"
    by simp
  then have s2: "add_argument (parser1 @ [?a1]) [''-F'', ''--'' @ CMAKE_FLAGS]
      ''Flags to use to override CMake flags'' CMAKE_FLAGS ?d2
      = Inr ((parser1 @ [?a1]) @
           [\<lparr>option_strings = [''-F'', ''--cmake_flags''],
               help_text = ''Flags to use to override CMake flags'',
               dest = ''cmake_flags'', default_value = ?d2\<rparr>])"
    by (simp add: add_argument_fresh del: set_simps append.simps)
  have "add_arguments os common_defaults common_add_arguments parser
         = Inr (parser1 @
             [?a1,
              \<lparr>option_strings = [''-F'', ''--cmake_flags''],
               help_text = ''Flags to use to override CMake flags'',
               dest = ''cmake_flags'', default_value = ?d2\<rparr>])"
    unfolding add_arguments_def Let_def getitem_def d1 d2 assms(1)
    using s1 s2 by simp
  with d1 d2 show ?thesis by blast
qed

theorem add_arguments_registers_witness:
  "add_arguments
      \<lparr>environ = [CMAKE_PATH_ENV_VAR \<mapsto> ''/opt/cmake/bin/cmake'',
                  CMAKE_FLAGS_ENV_VAR \<mapsto> ''-DFOO=1''],
       find_executable = (\<lambda>_. Some ''/usr/bin/cmake''), binary_at = (\<lambda>_. True),
       subprocess = (\<lambda>_ _. Exited 0)\<rparr>
      Map.empty
      (\<lambda>p. Inr (p @ [\<lparr>option_strings = [''-D'', ''--project_dir''], help_text = ''Project directory'',
         dest = ''project_dir'', default_value = None\<rparr>]))
      []
     = Inr [\<lparr>option_strings = [''-D'', ''--project_dir''], help_text = ''Project directory'',
         dest = ''project_dir'', default_value = None\<rparr>,
            \<lparr>option_strings = [''-c'', ''--cmake_path''], help_text = ''Path to CMake binary'',
             dest = ''cmake_path'', default_value = Some ''/opt/cmake/bin/cmake''\<rparr>,
            \<lparr>option_strings = [''-F'', ''--cmake_flags''],
             help_text = ''Flags to use to override CMake flags'',
             dest = ''cmake_flags'', default_value = Some ''-DFOO=1''\<rparr>]"
proof -
  have base: "(\<lambda>p. Inr (p @ [\<lparr>option_strings = [''-D'', ''--project_dir''], help_text = ''Project directory'',
         dest = ''project_dir'', default_value = None\<rparr>])) []
      = (Inr [\<lparr>option_strings = [''-D'', ''--project_dir''], help_text = ''Project directory'',
         dest = ''project_dir'', default_value = None\<rparr>] :: error + parser)"
    by simp
  have fresh: "\<forall>a \<in> set [\<lparr>option_strings = [''-D'', ''--project_dir''], help_text = ''Project directory'',
         dest = ''project_dir'', default_value = None\<rparr>].
      \<forall>f \<in> {''-c'', ''--cmake_path'', ''-F'', ''--cmake_flags''}. f \<notin> set (option_strings a)"
    by simp
  from base fresh add_arguments_registers
    [where common_add_arguments = "\<lambda>p. Inr (p @ [\<lparr>option_strings = [''-D'', ''--project_dir''], help_text = ''Project directory'',
         dest = ''project_dir'', default_value = None\<rparr>])"
       and parser = "[]"
       and ?parser1.0 = "[\<lparr>option_strings = [''-D'', ''--project_dir''], help_text = ''Project directory'',
         dest = ''project_dir'', default_value = None\<rparr>]"
       and os = "\<lparr>environ = [CMAKE_PATH_ENV_VAR \<mapsto> ''/opt/cmake/bin/cmake'',
                  CMAKE_FLAGS_ENV_VAR \<mapsto> ''-DFOO=1''],
       find_executable = (\<lambda>_. Some ''/usr/bin/cmake''), binary_at = (\<lambda>_. True),
       subprocess = (\<lambda>_ _. Exited 0)\<rparr>"
       and common_defaults = Map.empty]
  show ?thesis
    by (simp add: build_defaults_def py_or_def getenv_def)
qed

section \<open>Attributes across run_cmake\<close>

text \<open>
  C9. After \<open>run_cmake\<close> has returned or raised, \<open>cmake_path\<close> and
  \<open>cmake_flags\<close> hold the values they had at the call.
\<close>

theorem run_cmake_keeps_fields:
  "cmake_path (fst (snd (run_cmake os self gen tr))) = cmake_path self
   \<and> cmake_flags (fst (snd (run_cmake os self gen tr))) = cmake_flags self"
proof -
  have "fst (snd (run_cmake os self gen tr)) = self"
  proof (cases "check_binary os ''cmake'' (cmake_path self)")
    case (Inl e)
    then show ?thesis by (simp add: run_cmake_unchecked)
  next
    case (Inr u)
    then have "check_binary os ''cmake'' (cmake_path self) = Inr ()" by simp
    from run_cmake_checked [OF this, of gen tr] show ?thesis
      by (simp add: run_subprocess_trace split: sum.splits)
  qed
  then show ?thesis by simp
qed

theorem run_cmake_keeps_fields_witness:
  "cmake_path (fst (snd (run_cmake
      \<lparr>environ = Map.empty, find_executable = (\<lambda>_. None),
       binary_at = (\<lambda>p. p = ''/usr/bin/cmake''), subprocess = (\<lambda>_ _. Exited 1)\<rparr>
      \<lparr>project_directory = ''/src/proj'', posix = True,
       cmake_path = Some ''/usr/bin/cmake'', cmake_flags = Some
        [CHR ''-'', CHR ''D'', CHR ''X'', CHR ''='', CHR 0x27, CHR ''a'', CHR '' '', CHR ''b'', CHR 0x27]\<rparr>
      ''Ninja'' []))) = Some ''/usr/bin/cmake''
   \<and> cmake_flags (fst (snd (run_cmake
      \<lparr>environ = Map.empty, find_executable = (\<lambda>_. None),
       binary_at = (\<lambda>p. p = ''/usr/bin/cmake''), subprocess = (\<lambda>_ _. Exited 1)\<rparr>
      \<lparr>project_directory = ''/src/proj'', posix = True,
       cmake_path = Some ''/usr/bin/cmake'', cmake_flags = Some
        [CHR ''-'', CHR ''D'', CHR ''X'', CHR ''='', CHR 0x27, CHR ''a'', CHR '' '', CHR ''b'', CHR 0x27]\<rparr>
      ''Ninja'' []))) = Some [CHR ''-'', CHR ''D'', CHR ''X'', CHR ''='', CHR 0x27, CHR ''a'', CHR '' '', CHR ''b'', CHR 0x27]"
  using run_cmake_keeps_fields
    [of "\<lparr>environ = Map.empty, find_executable = (\<lambda>_. None),
       binary_at = (\<lambda>p. p = ''/usr/bin/cmake''), subprocess = (\<lambda>_ _. Exited 1)\<rparr>"
        "\<lparr>project_directory = ''/src/proj'', posix = True,
       cmake_path = Some ''/usr/bin/cmake'', cmake_flags = Some
        [CHR ''-'', CHR ''D'', CHR ''X'', CHR ''='', CHR 0x27, CHR ''a'', CHR '' '', CHR ''b'', CHR 0x27]\<rparr>"
        "''Ninja''" "[]"]
  by simp

section \<open>Construction without the keys\<close>



end
